theory Spec2Isabelle
  imports
    Main
    "HOL-Library.Word"
    "HOL-Library.Char_ord"
    "HOL-Library.List_Lexorder"
    "HOL-Library.Multiset"
begin

unbundle bit_operations_syntax

section \<open>Strings and bytes\<close>

text \<open>
  The verifier \<^verbatim>\<open>isValidTelegramData\<close> of \<^verbatim>\<open>backend/index.js\<close> works on JavaScript
  strings.  A string is modelled by the sequence of bytes of its UTF-8 encoding, that is
  by a HOL \<^typ>\<open>string\<close>: this is what \<^verbatim>\<open>URLSearchParams\<close> parses, what
  percent-decoding produces and what \<^verbatim>\<open>Hmac.update\<close> hashes.  Names and values of a
  payload are taken to decode to well-formed UTF-8 without a byte-order mark (the platform
  would replace ill-formed sequences by U+FFFD and drop the mark); on such strings string
  equality is byte equality.  \<^verbatim>\<open>URLSearchParams.sort\<close> compares UTF-16 code units, which is
  the byte order used here for every name whose code points lie below U+E000.
\<close>

type_synonym byte = "8 word"
type_synonym w32 = "32 word"

definition utf8 :: "string \<Rightarrow> byte list" where
  "utf8 s = map (\<lambda>c. of_nat (of_char c)) s"

section \<open>The platform: \<^verbatim>\<open>crypto\<close> (SHA-256, HMAC, hex digests)\<close>

text \<open>
  \<^verbatim>\<open>crypto.createHmac('sha256', key).update(msg).digest()\<close> is HMAC (RFC 2104) over
  SHA-256 (FIPS 180-4), written out here so that the verifier is a closed, executable
  function.
\<close>

definition rotr :: "nat \<Rightarrow> w32 \<Rightarrow> w32" where
  "rotr n x = drop_bit n x OR push_bit (32 - n) x"

text \<open>
  The round constants (the first 32 bits of the fractional parts of the cube roots of the
  first 64 primes) and the initial hash value (the same of the square roots of the first 8
  primes), in decimal.
\<close>

definition K256 :: "w32 list" where
  "K256 =
     [1116352408, 1899447441, 3049323471, 3921009573, 961987163, 1508970993,
      2453635748, 2870763221, 3624381080, 310598401, 607225278, 1426881987,
      1925078388, 2162078206, 2614888103, 3248222580, 3835390401, 4022224774,
      264347078, 604807628, 770255983, 1249150122, 1555081692, 1996064986,
      2554220882, 2821834349, 2952996808, 3210313671, 3336571891, 3584528711,
      113926993, 338241895, 666307205, 773529912, 1294757372, 1396182291,
      1695183700, 1986661051, 2177026350, 2456956037, 2730485921, 2820302411,
      3259730800, 3345764771, 3516065817, 3600352804, 4094571909, 275423344,
      430227734, 506948616, 659060556, 883997877, 958139571, 1322822218,
      1537002063, 1747873779, 1955562222, 2024104815, 2227730452, 2361852424,
      2428436474, 2756734187, 3204031479, 3329325298]"

definition H256 :: "w32 list" where
  "H256 =
     [1779033703, 3144134277, 1013904242, 2773480762,
      1359893119, 2600822924, 528734635, 1541459225]"

definition ssig0 :: "w32 \<Rightarrow> w32" where
  "ssig0 x = rotr 7 x XOR rotr 18 x XOR drop_bit 3 x"

definition ssig1 :: "w32 \<Rightarrow> w32" where
  "ssig1 x = rotr 17 x XOR rotr 19 x XOR drop_bit 10 x"

definition bsig0 :: "w32 \<Rightarrow> w32" where
  "bsig0 x = rotr 2 x XOR rotr 13 x XOR rotr 22 x"

definition bsig1 :: "w32 \<Rightarrow> w32" where
  "bsig1 x = rotr 6 x XOR rotr 11 x XOR rotr 25 x"

definition ch :: "w32 \<Rightarrow> w32 \<Rightarrow> w32 \<Rightarrow> w32" where
  "ch x y z = (x AND y) XOR (NOT x AND z)"

definition maj :: "w32 \<Rightarrow> w32 \<Rightarrow> w32 \<Rightarrow> w32" where
  "maj x y z = (x AND y) XOR (x AND z) XOR (y AND z)"

text \<open>Big-endian 32-bit words of a block.\<close>

fun be32 :: "byte list \<Rightarrow> w32 list" where
  "be32 (a # b # c # d # r) =
     (push_bit 24 (ucast a) OR push_bit 16 (ucast b) OR push_bit 8 (ucast c) OR ucast d) # be32 r"
| "be32 _ = []"

text \<open>The message schedule, newest word first: \<open>W\<^sub>t = \<sigma>\<^sub>1(W\<^sub>t\<^sub>-\<^sub>2) + W\<^sub>t\<^sub>-\<^sub>7 + \<sigma>\<^sub>0(W\<^sub>t\<^sub>-\<^sub>1\<^sub>5) + W\<^sub>t\<^sub>-\<^sub>1\<^sub>6\<close>.\<close>

fun expand :: "nat \<Rightarrow> w32 list \<Rightarrow> w32 list" where
  "expand 0 ws = ws"
| "expand (Suc n) ws =
     expand n ((ssig1 (ws ! 1) + ws ! 6 + ssig0 (ws ! 14) + ws ! 15) # ws)"

fun rounds :: "w32 list \<Rightarrow> w32 list \<Rightarrow> w32 list \<Rightarrow> w32 list" where
  "rounds (k # ks) (w # ws) [a, b, c, d, e, f, g, h] =
     (let t1 = h + bsig1 e + ch e f g + k + w;
          t2 = bsig0 a + maj a b c
      in rounds ks ws [t1 + t2, a, b, c, d + t1, e, f, g])"
| "rounds _ _ s = s"

definition compress :: "w32 list \<Rightarrow> byte list \<Rightarrow> w32 list" where
  "compress hs blk = map2 (+) hs (rounds K256 (rev (expand 48 (rev (be32 blk)))) hs)"

fun blocks :: "nat \<Rightarrow> w32 list \<Rightarrow> byte list \<Rightarrow> w32 list" where
  "blocks 0 hs bs = hs"
| "blocks (Suc n) hs bs = blocks n (compress hs (take 64 bs)) (drop 64 bs)"

definition w64_bytes :: "64 word \<Rightarrow> byte list" where
  "w64_bytes x = map (\<lambda>i. ucast (drop_bit (8 * i) x)) [7, 6, 5, 4, 3, 2, 1, 0]"

definition pad :: "byte list \<Rightarrow> byte list" where
  "pad m = m @ [0x80] @ replicate ((119 - length m mod 64) mod 64) 0
             @ w64_bytes (of_nat (8 * length m))"

definition w32_bytes :: "w32 \<Rightarrow> byte list" where
  "w32_bytes x = [ucast (drop_bit 24 x), ucast (drop_bit 16 x), ucast (drop_bit 8 x), ucast x]"

definition sha256 :: "byte list \<Rightarrow> byte list" where
  "sha256 m = (let p = pad m in concat (map w32_bytes (blocks (length p div 64) H256 p)))"

definition hmac_sha256 :: "byte list \<Rightarrow> byte list \<Rightarrow> byte list" where
  "hmac_sha256 key msg =
     (let k0 = (if length key > 64 then sha256 key else key);
          k = k0 @ replicate (64 - length k0) 0
      in sha256 (map (\<lambda>b. b XOR 0x5c) k @ sha256 (map (\<lambda>b. b XOR 0x36) k @ msg)))"

definition hexdigit :: "nat \<Rightarrow> char" where
  "hexdigit n = ''0123456789abcdef'' ! n"

text \<open>\<^verbatim>\<open>digest('hex')\<close>: two lower-case digits for each byte.\<close>

definition hex :: "byte list \<Rightarrow> string" where
  "hex bs = concat (map (\<lambda>b. [hexdigit (unat b div 16), hexdigit (unat b mod 16)]) bs)"

section \<open>The platform: \<^verbatim>\<open>URLSearchParams\<close>\<close>

text \<open>
  \<^verbatim>\<open>new URLSearchParams(init)\<close> for a string (URL Standard, section 5.2): a leading
  \<^verbatim>\<open>?\<close> is dropped, the string is split at every \<^verbatim>\<open>&\<close>, empty pieces are skipped,
  each piece is split at its first \<^verbatim>\<open>=\<close> (the value is empty when there is none),
  \<^verbatim>\<open>+\<close> becomes a space and both parts are percent-decoded.  The result is the list of
  name/value pairs in input order; a name may occur several times.
\<close>

fun split_on :: "char \<Rightarrow> string \<Rightarrow> string list" where
  "split_on d [] = [[]]"
| "split_on d (c # cs) =
     (if c = d then [] # split_on d cs
      else (case split_on d cs of [] \<Rightarrow> [[c]] | w # ws \<Rightarrow> (c # w) # ws))"

definition hexval :: "char \<Rightarrow> nat option" where
  "hexval c =
     (let n = (of_char c :: nat)
      in if 48 \<le> n \<and> n \<le> 57 then Some (n - 48)
         else if 65 \<le> n \<and> n \<le> 70 then Some (n - 55)
         else if 97 \<le> n \<and> n \<le> 102 then Some (n - 87)
         else None)"

fun percent_decode :: "string \<Rightarrow> string" where
  "percent_decode (c # h # l # r) =
     (if c = CHR ''%'' then
        (case (hexval h, hexval l) of
           (Some a, Some b) \<Rightarrow> char_of (16 * a + b) # percent_decode r
         | _ \<Rightarrow> c # percent_decode (h # l # r))
      else c # percent_decode (h # l # r))"
| "percent_decode (c # cs) = c # percent_decode cs"
| "percent_decode [] = []"

definition form_decode :: "string \<Rightarrow> string" where
  "form_decode s = percent_decode (map (\<lambda>c. if c = CHR ''+'' then CHR '' '' else c) s)"

definition parse_pair :: "string \<Rightarrow> string \<times> string" where
  "parse_pair seq =
     (let name = takeWhile (\<lambda>c. c \<noteq> CHR ''='') seq;
          val = drop (Suc (length name)) seq
      in (form_decode name, form_decode val))"

definition URLSearchParams :: "string \<Rightarrow> (string \<times> string) list" where
  "URLSearchParams init =
     (let input = (case init of [] \<Rightarrow> [] | c # r \<Rightarrow> if c = CHR ''?'' then r else init)
      in map parse_pair (filter (\<lambda>seq. seq \<noteq> []) (split_on CHR ''&'' input)))"

text \<open>\<^verbatim>\<open>get\<close> returns the value of the first pair with the name, or \<^verbatim>\<open>null\<close>.\<close>

fun URLSearchParams_get :: "string \<Rightarrow> (string \<times> string) list \<Rightarrow> string option" where
  "URLSearchParams_get name [] = None"
| "URLSearchParams_get name ((k, v) # ps) =
     (if k = name then Some v else URLSearchParams_get name ps)"

text \<open>\<^verbatim>\<open>delete\<close> removes every pair with the name.\<close>

fun URLSearchParams_delete :: "string \<Rightarrow> (string \<times> string) list \<Rightarrow> (string \<times> string) list" where
  "URLSearchParams_delete name [] = []"
| "URLSearchParams_delete name ((k, v) # ps) =
     (if k = name then URLSearchParams_delete name ps
      else (k, v) # URLSearchParams_delete name ps)"

text \<open>
  \<^verbatim>\<open>sort\<close> orders the pairs by name and is stable: pairs with equal names keep their
  relative order.  \<^const>\<open>sort_key\<close> is the stable insertion sort of the list library.
\<close>

definition URLSearchParams_sort :: "(string \<times> string) list \<Rightarrow> (string \<times> string) list" where
  "URLSearchParams_sort ps = sort_key fst ps"

text \<open>\<^verbatim>\<open>Array.prototype.join\<close>.\<close>

fun join :: "string \<Rightarrow> string list \<Rightarrow> string" where
  "join sep [] = []"
| "join sep [x] = x"
| "join sep (x # y # zs) = x @ sep @ join sep (y # zs)"

section \<open>The platform: JavaScript values, \<^verbatim>\<open>parseInt\<close> and \<^verbatim>\<open>JSON.parse\<close>\<close>

text \<open>
  A number carries the exact decimal value of its literal, \<open>JNum m k\<close> standing for
  \<open>m / 10\<^sup>k\<close> with \<open>k\<close> least; the rounding to IEEE-754 doubles is outside the model, which
  agrees with JavaScript on integers of magnitude up to \<open>2\<^sup>5\<^sup>3\<close> and on short decimals.
  An object is the list of its own properties, one entry for each key.
\<close>

datatype jsval =
    JUndefined
  | JNull
  | JBool bool
  | JNum int nat
  | JStr string
  | JArr "jsval list"
  | JObj "(string \<times> jsval) list"

fun truthy :: "jsval \<Rightarrow> bool" where
  "truthy JUndefined = False"
| "truthy JNull = False"
| "truthy (JBool b) = b"
| "truthy (JNum m k) = (m \<noteq> 0)"
| "truthy (JStr s) = (s \<noteq> [])"
| "truthy (JArr vs) = True"
| "truthy (JObj ms) = True"

text \<open>
  Reading a property of a value that is neither \<^verbatim>\<open>null\<close> nor \<^verbatim>\<open>undefined\<close>; only the
  names \<^verbatim>\<open>id\<close>, \<^verbatim>\<open>username\<close>, \<^verbatim>\<open>first_name\<close>, \<^verbatim>\<open>last_name\<close> and
  \<^verbatim>\<open>language_code\<close> are read, which no primitive or array defines.
\<close>

fun js_get :: "jsval \<Rightarrow> string \<Rightarrow> jsval" where
  "js_get (JObj ms) k = (case map_of ms k of None \<Rightarrow> JUndefined | Some v \<Rightarrow> v)"
| "js_get v k = JUndefined"

text \<open>Optional chaining \<^verbatim>\<open>v?.k\<close>.\<close>

definition js_get_opt :: "jsval \<Rightarrow> string \<Rightarrow> jsval" where
  "js_get_opt v k = (if v = JNull \<or> v = JUndefined then JUndefined else js_get v k)"

definition is_digit :: "char \<Rightarrow> bool" where
  "is_digit c = (48 \<le> (of_char c :: nat) \<and> (of_char c :: nat) \<le> 57)"

definition digits_val :: "string \<Rightarrow> int" where
  "digits_val ds = foldl (\<lambda>n c. 10 * n + (of_char c - 48)) 0 ds"

text \<open>The decimal digits of a number that is not negative.\<close>

function show_digits :: "int \<Rightarrow> string" where
  "show_digits n = (if n < 10 then [char_of (48 + n)]
                    else show_digits (n div 10) @ [char_of (48 + n mod 10)])"
  by pat_completeness auto
termination
  by (relation "measure nat") auto

definition show_num :: "int \<Rightarrow> nat \<Rightarrow> string" where
  "show_num m k =
     (let a = \<bar>m\<bar>; ip = show_digits (a div 10 ^ k); fp = show_digits (a mod 10 ^ k)
      in (if m < 0 then ''-'' else []) @ ip @
         (if k = 0 then [] else ''.'' @ replicate (k - length fp) CHR ''0'' @ fp))"

text \<open>\<^verbatim>\<open>String(v)\<close>, also the conversion of a template literal.\<close>

fun js_String :: "jsval \<Rightarrow> string" where
  "js_String JUndefined = ''undefined''"
| "js_String JNull = ''null''"
| "js_String (JBool b) = (if b then ''true'' else ''false'')"
| "js_String (JNum m k) = show_num m k"
| "js_String (JStr s) = s"
| "js_String (JArr vs) =
     join '','' (map (\<lambda>v. if v = JNull \<or> v = JUndefined then [] else js_String v) vs)"
| "js_String (JObj ms) = ''[object Object]''"

definition is_js_space :: "char \<Rightarrow> bool" where
  "is_js_space c = ((of_char c :: nat) \<in> {9, 10, 11, 12, 13, 32})"

text \<open>
  \<^verbatim>\<open>parseInt(s, 10)\<close>: leading white space (here the white space of ASCII), a sign,
  then the longest run of digits; \<open>None\<close> stands for \<^verbatim>\<open>NaN\<close>.
\<close>

definition parseInt :: "string \<Rightarrow> int option" where
  "parseInt s =
     (let t = dropWhile is_js_space s;
          neg = (t \<noteq> [] \<and> hd t = CHR ''-'');
          u = (if t \<noteq> [] \<and> (hd t = CHR ''-'' \<or> hd t = CHR ''+'') then tl t else t);
          ds = takeWhile is_digit u
      in if ds = [] then None
         else Some (if neg then - digits_val ds else digits_val ds))"

definition is_json_ws :: "char \<Rightarrow> bool" where
  "is_json_ws c = ((of_char c :: nat) \<in> {9, 10, 13, 32})"

definition skip_ws :: "string \<Rightarrow> string" where
  "skip_ws s = dropWhile is_json_ws s"

definition utf8_encode :: "nat \<Rightarrow> string" where
  "utf8_encode cp =
     (if cp < 0x80 then [char_of cp]
      else if cp < 0x800 then [char_of (0xC0 + cp div 64), char_of (0x80 + cp mod 64)]
      else if cp < 0x10000 then
        [char_of (0xE0 + cp div 4096), char_of (0x80 + cp div 64 mod 64), char_of (0x80 + cp mod 64)]
      else [char_of (0xF0 + cp div 262144), char_of (0x80 + cp div 4096 mod 64),
            char_of (0x80 + cp div 64 mod 64), char_of (0x80 + cp mod 64)])"

text \<open>
  The characters of a string literal: a raw byte (\<open>Inl\<close>) or the UTF-16 code unit of a
  \<^verbatim>\<open>\uXXXX\<close> escape (\<open>Inr\<close>).
\<close>

definition json_escape :: "char \<Rightarrow> char option" where
  "json_escape e =
     (if e = CHR 0x22 \<or> e = CHR 0x5C \<or> e = CHR ''/'' then Some e
      else if e = CHR ''b'' then Some (CHR 0x08)
      else if e = CHR ''f'' then Some (CHR 0x0C)
      else if e = CHR ''n'' then Some (CHR 0x0A)
      else if e = CHR ''r'' then Some (CHR 0x0D)
      else if e = CHR ''t'' then Some (CHR 0x09)
      else None)"

function json_chars :: "string \<Rightarrow> ((char + nat) list \<times> string) option" where
  "json_chars [] = None"
| "json_chars (c # cs) =
     (if c = CHR 0x22 then Some ([], cs)
      else if c = CHR 0x5C then
        (case cs of
           [] \<Rightarrow> None
         | e # r \<Rightarrow>
             if e = CHR ''u'' then
               (case map hexval (take 4 r) of
                  [Some x3, Some x2, Some x1, Some x0] \<Rightarrow>
                    map_option (\<lambda>(us, t). (Inr (4096 * x3 + 256 * x2 + 16 * x1 + x0) # us, t))
                      (json_chars (drop 4 r))
                | _ \<Rightarrow> None)
             else
               (case json_escape e of
                  None \<Rightarrow> None
                | Some x \<Rightarrow> map_option (\<lambda>(us, t). (Inl x # us, t)) (json_chars r)))
      else if (of_char c :: nat) < 32 then None
      else map_option (\<lambda>(us, t). (Inl c # us, t)) (json_chars cs))"
  by pat_completeness auto
termination
  by (relation "measure length") auto

text \<open>
  The bytes of the string: a surrogate pair is one code point, a lone surrogate is
  written as U+FFFD, as the UTF-8 encoder of the platform does.
\<close>

fun json_units :: "(char + nat) list \<Rightarrow> string" where
  "json_units [] = []"
| "json_units (Inl c # us) = c # json_units us"
| "json_units (Inr h # Inr l # us) =
     (if 0xD800 \<le> h \<and> h < 0xDC00 \<and> 0xDC00 \<le> l \<and> l < 0xE000
      then utf8_encode (0x10000 + (h - 0xD800) * 1024 + (l - 0xDC00)) @ json_units us
      else if 0xD800 \<le> h \<and> h < 0xE000 then utf8_encode 0xFFFD @ json_units (Inr l # us)
      else utf8_encode h @ json_units (Inr l # us))"
| "json_units (Inr h # us) =
     (if 0xD800 \<le> h \<and> h < 0xE000 then utf8_encode 0xFFFD else utf8_encode h) @ json_units us"

fun strip_zeros :: "int \<Rightarrow> nat \<Rightarrow> int \<times> nat" where
  "strip_zeros m 0 = (m, 0)"
| "strip_zeros m (Suc k) = (if m mod 10 = 0 then strip_zeros (m div 10) k else (m, Suc k))"

text \<open>
  A number literal:
  \<^verbatim>\<open>-? (0 | [1-9][0-9]*) (. [0-9]+)? ([eE] [+-]? [0-9]+)?\<close>.
\<close>

definition json_number :: "string \<Rightarrow> (jsval \<times> string) option" where
  "json_number s =
     (let neg = (s \<noteq> [] \<and> hd s = CHR ''-'');
          s1 = (if neg then tl s else s);
          ip = takeWhile is_digit s1;
          s2 = dropWhile is_digit s1;
          has_frac = (s2 \<noteq> [] \<and> hd s2 = CHR ''.'');
          fp = (if has_frac then takeWhile is_digit (tl s2) else []);
          s3 = (if has_frac then dropWhile is_digit (tl s2) else s2);
          has_exp = (s3 \<noteq> [] \<and> (hd s3 = CHR ''e'' \<or> hd s3 = CHR ''E''));
          s4 = (if has_exp then tl s3 else s3);
          eneg = (has_exp \<and> s4 \<noteq> [] \<and> hd s4 = CHR ''-'');
          s5 = (if has_exp \<and> s4 \<noteq> [] \<and> (hd s4 = CHR ''-'' \<or> hd s4 = CHR ''+'')
                then tl s4 else s4);
          ep = (if has_exp then takeWhile is_digit s5 else []);
          s6 = (if has_exp then dropWhile is_digit s5 else s3);
          m = (if neg then - digits_val (ip @ fp) else digits_val (ip @ fp));
          e = (if eneg then - digits_val ep else digits_val ep);
          scale = int (length fp) - e
      in if ip = [] \<or> (length ip > 1 \<and> hd ip = CHR ''0'') \<or> (has_frac \<and> fp = [])
            \<or> (has_exp \<and> ep = [])
         then None
         else if scale \<le> 0 then Some (JNum (m * 10 ^ nat (- scale)) 0, s6)
         else (case strip_zeros m (nat scale) of (m', k) \<Rightarrow> Some (JNum m' k, s6)))"

text \<open>
  An object keeps one entry for each key: a repeated key overwrites the value at the
  place of its first occurrence.
\<close>

fun obj_put :: "string \<Rightarrow> jsval \<Rightarrow> (string \<times> jsval) list \<Rightarrow> (string \<times> jsval) list" where
  "obj_put k v [] = [(k, v)]"
| "obj_put k v ((k', v') # ms) = (if k' = k then (k, v) # ms else (k', v') # obj_put k v ms)"

definition js_object :: "(string \<times> jsval) list \<Rightarrow> jsval" where
  "js_object ms = JObj (foldl (\<lambda>acc (k, v). obj_put k v acc) [] ms)"

text \<open>
  The recursive-descent parser.  \<open>json_elements\<close> reads the elements of an array up to
  its closing bracket, \<open>json_members\<close> the members of an object up to its closing brace.
  Every value consumes at least one character, which the tests on the rest of the input
  record.
\<close>

function json_value :: "string \<Rightarrow> (jsval \<times> string) option"
  and json_elements :: "string \<Rightarrow> (jsval list \<times> string) option"
  and json_members :: "string \<Rightarrow> ((string \<times> jsval) list \<times> string) option"
where
  "json_value s =
     (case skip_ws s of
        [] \<Rightarrow> None
      | c # r \<Rightarrow>
          if c = CHR ''['' then
            (case skip_ws r of
               [] \<Rightarrow> None
             | c' # r' \<Rightarrow>
                 if c' = CHR '']'' then Some (JArr [], r')
                 else map_option (\<lambda>(vs, t). (JArr vs, t)) (json_elements (c' # r')))
          else if c = CHR ''{'' then
            (case skip_ws r of
               [] \<Rightarrow> None
             | c' # r' \<Rightarrow>
                 if c' = CHR ''}'' then Some (JObj [], r')
                 else map_option (\<lambda>(ms, t). (js_object ms, t)) (json_members (c' # r')))
          else if c = CHR 0x22 then
            map_option (\<lambda>(us, t). (JStr (json_units us), t)) (json_chars r)
          else if take 4 (c # r) = ''null'' then Some (JNull, drop 4 (c # r))
          else if take 4 (c # r) = ''true'' then Some (JBool True, drop 4 (c # r))
          else if take 5 (c # r) = ''false'' then Some (JBool False, drop 5 (c # r))
          else json_number (c # r))"
| "json_elements s =
     (case json_value s of
        None \<Rightarrow> None
      | Some (v, t) \<Rightarrow>
          if length t < length s then
            (case skip_ws t of
               [] \<Rightarrow> None
             | c # r \<Rightarrow>
                 if c = CHR '','' then map_option (\<lambda>(vs, u). (v # vs, u)) (json_elements r)
                 else if c = CHR '']'' then Some ([v], r)
                 else None)
          else None)"
| "json_members s =
     (case skip_ws s of
        [] \<Rightarrow> None
      | q # r0 \<Rightarrow>
          if q = CHR 0x22 then
            (case json_chars r0 of
               None \<Rightarrow> None
             | Some (us, t0) \<Rightarrow>
                 (case skip_ws t0 of
                    [] \<Rightarrow> None
                  | colon # t1 \<Rightarrow>
                      if colon = CHR '':'' \<and> length t1 < length s then
                        (case json_value t1 of
                           None \<Rightarrow> None
                         | Some (v, t) \<Rightarrow>
                             if length t < length s then
                               (case skip_ws t of
                                  [] \<Rightarrow> None
                                | c # r \<Rightarrow>
                                    if c = CHR '','' then
                                      map_option (\<lambda>(ms, u). ((json_units us, v) # ms, u))
                                        (json_members r)
                                    else if c = CHR ''}'' then Some ([(json_units us, v)], r)
                                    else None)
                             else None)
                      else None))
          else None)"
  by pat_completeness auto

termination
proof -
  have shorter: "length r < length s" if "skip_ws s = c # r" for s c r
    using length_dropWhile_le [of is_json_ws s] that by (simp add: skip_ws_def)
  show ?thesis
    by (relation "measure (\<lambda>x. case x of Inl s \<Rightarrow> 2 * length s
                                   | Inr (Inl s) \<Rightarrow> 2 * length s + 1
                                   | Inr (Inr s) \<Rightarrow> 2 * length s + 1)")
       (auto dest!: shorter)
qed

text \<open>\<^verbatim>\<open>JSON.parse(text)\<close>; \<open>None\<close> stands for a thrown \<^verbatim>\<open>SyntaxError\<close>.\<close>

definition JSON_parse :: "string \<Rightarrow> jsval option" where
  "JSON_parse text =
     (case json_value text of
        None \<Rightarrow> None
      | Some (v, t) \<Rightarrow> if skip_ws t = [] then Some v else None)"


section \<open>The verifier: \<^verbatim>\<open>isValidTelegramData\<close>\<close>

datatype console = ConsoleError string | ConsoleWarn string | ConsoleLog string

record verdict =
  valid :: bool
  user :: jsval
  error :: "string option"

text \<open>
  A thrown JavaScript value.  The calls of the \<^verbatim>\<open>try\<close> block that reach into the platform's
  cryptography are a parameter of the verifier, so that its \<^verbatim>\<open>catch\<close> clause is a branch
  of the model; \<open>node_createHmac\<close> is the \<^verbatim>\<open>crypto\<close> module of Node.js, which does not
  throw on strings and buffers.
\<close>

datatype exn = Exn string

type_synonym createHmac = "byte list \<Rightarrow> byte list \<Rightarrow> exn + byte list"

definition node_createHmac :: createHmac where
  "node_createHmac key msg = Inr (hmac_sha256 key msg)"

definition EXPIRATION_SECONDS :: int where
  "EXPIRATION_SECONDS = 24 * 3600"

text \<open>
  Lines 44 to 58: the age of \<^verbatim>\<open>auth_date\<close> against \<^verbatim>\<open>Date.now()\<close> (milliseconds).  The
  branch that would reject an old payload is commented out in the source; what is left
  writes a warning.
\<close>

definition auth_date_check :: "int \<Rightarrow> (string \<times> string) list \<Rightarrow> console list" where
  "auth_date_check now urlParams =
     (case URLSearchParams_get ''auth_date'' urlParams of
        None \<Rightarrow> [ConsoleWarn ''Validation Warning: auth_date parameter missing in initData.'']
      | Some authDate \<Rightarrow>
          if authDate = [] then
            [ConsoleWarn ''Validation Warning: auth_date parameter missing in initData.'']
          else
            (let currentTimestamp = now div 1000
             in case parseInt authDate of
                  None \<Rightarrow> []
                | Some a \<Rightarrow>
                    if currentTimestamp - a > EXPIRATION_SECONDS
                    then [ConsoleWarn ''Validation Warning: initData is older than 24 hours.'']
                    else []))"

text \<open>Lines 60 to 66: \<^verbatim>\<open>sort\<close>, \<^verbatim>\<open>forEach\<close> pushing \<^verbatim>\<open>key=value\<close>, \<^verbatim>\<open>join('\n')\<close>.\<close>

definition dataCheckArr :: "(string \<times> string) list \<Rightarrow> string list" where
  "dataCheckArr urlParams = foldl (\<lambda>arr (key, val). arr @ [key @ ''='' @ val]) [] urlParams"

definition invalid :: "string option \<Rightarrow> verdict" where
  "invalid e = \<lparr>valid = False, user = JNull, error = e\<rparr>"

text \<open>The \<^verbatim>\<open>try\<close> block, lines 36 to 97: the console output and the verdict or the exception.\<close>

definition validate_try ::
  "createHmac \<Rightarrow> int \<Rightarrow> string \<Rightarrow> string \<Rightarrow> console list \<times> (exn + verdict)" where
  "validate_try createHmac now initData botToken =
     (let urlParams = URLSearchParams initData;
          hash = URLSearchParams_get ''hash'' urlParams
      in if hash = None \<or> hash = Some [] then
           ([ConsoleWarn ''Validation Warning: Hash parameter missing in initData.''],
            Inr (invalid (Some ''Hash missing'')))
         else
           (let urlParams = URLSearchParams_delete ''hash'' urlParams;
                log = auth_date_check now urlParams;
                urlParams = URLSearchParams_sort urlParams
            in case createHmac (utf8 ''WebAppData'') (utf8 botToken) of
                 Inl e \<Rightarrow> (log, Inl e)
               | Inr secretKey \<Rightarrow>
                   (case createHmac secretKey (utf8 (join [CHR 0x0A] (dataCheckArr urlParams))) of
                      Inl e \<Rightarrow> (log, Inl e)
                    | Inr digest \<Rightarrow>
                        if Some (hex digest) = hash then
                          (case URLSearchParams_get ''user'' urlParams of
                             None \<Rightarrow>
                               (log @ [ConsoleError ''Validation Error: User data missing in initData''],
                                Inr (invalid (Some ''User data missing'')))
                           | Some userJson \<Rightarrow>
                               if userJson = [] then
                                 (log @ [ConsoleError ''Validation Error: User data missing in initData''],
                                  Inr (invalid (Some ''User data missing'')))
                               else
                                 (case JSON_parse userJson of
                                    None \<Rightarrow>
                                      (log @ [ConsoleError
                                         ''Validation Error: Failed to parse user JSON from initData.''],
                                       Inr (invalid (Some ''Invalid user data format'')))
                                  | Some u \<Rightarrow>
                                      (log @ [ConsoleLog (''Validation Successful for user ID: ''
                                                @ js_String (js_get_opt u ''id''))],
                                       Inr \<lparr>valid = True, user = u, error = None\<rparr>)))
                        else
                          (log @ [ConsoleWarn ''Validation Failed: Hash mismatch.''],
                           Inr (invalid (Some ''Hash mismatch''))))))"

text \<open>
  The function, lines 29 to 102, with the guard before the \<^verbatim>\<open>try\<close> block and the
  \<^verbatim>\<open>catch\<close> clause after it.  \<open>now\<close> is the value of \<^verbatim>\<open>Date.now()\<close>.
\<close>

definition isValidTelegramData_with ::
  "createHmac \<Rightarrow> int \<Rightarrow> string \<Rightarrow> string \<Rightarrow> verdict \<times> console list" where
  "isValidTelegramData_with createHmac now initData botToken =
     (if initData = [] \<or> botToken = [] then
        (invalid None, [ConsoleError ''Validation Error: Missing initData or botToken''])
      else
        (case validate_try createHmac now initData botToken of
           (log, Inr v) \<Rightarrow> (v, log)
         | (log, Inl e) \<Rightarrow>
             (invalid (Some ''Internal validation error''),
              log @ [ConsoleError ''Error during validation:''])))"

definition isValidTelegramData :: "int \<Rightarrow> string \<Rightarrow> string \<Rightarrow> verdict \<times> console list" where
  "isValidTelegramData = isValidTelegramData_with node_createHmac"

section \<open>The platform: \<^verbatim>\<open>nanoid\<close> and the Firestore collection \<^verbatim>\<open>users\<close>\<close>

definition urlAlphabet :: string where
  "urlAlphabet = ''useandom-26T198340PX75pxJACKVERYMINDBUSHWOLF_GQZbfghjklqvwyzrict''"

text \<open>
  \<^verbatim>\<open>nanoid(n)\<close> takes \<open>n\<close> bytes of the random pool, here the bytes \<open>pool 0\<close>,
  \<open>pool 1\<close>, ..., and writes the character \<^verbatim>\<open>urlAlphabet[byte & 63]\<close> for each of
  them.
\<close>

definition nanoid :: "(nat \<Rightarrow> byte) \<Rightarrow> nat \<Rightarrow> string" where
  "nanoid pool n = map (\<lambda>i. urlAlphabet ! unat (pool i AND 63)) [0..<n]"

text \<open>
  The value of a stored field is a JavaScript value or a timestamp.  The data passed to a
  write, and the profile sent back, may also hold the sentinel
  \<^verbatim>\<open>FieldValue.serverTimestamp()\<close>, which the write replaces by the time of the server.
\<close>

datatype fvalue = Val jsval | Timestamp int

datatype wvalue = Plain fvalue | ServerTimestamp

type_synonym document = "string \<rightharpoonup> fvalue"

type_synonym firestore = "string \<rightharpoonup> document"

fun field_truthy :: "fvalue \<Rightarrow> bool" where
  "field_truthy (Val v) = truthy v"
| "field_truthy (Timestamp t) = True"

text \<open>The operators \<^verbatim>\<open>a || b\<close> and \<^verbatim>\<open>a ?? b\<close>.\<close>

definition or_else :: "fvalue \<Rightarrow> fvalue \<Rightarrow> fvalue" where
  "or_else a b = (if field_truthy a then a else b)"

definition nullish :: "wvalue option \<Rightarrow> wvalue \<Rightarrow> wvalue" where
  "nullish a b =
     (case a of
        None \<Rightarrow> b
      | Some w \<Rightarrow> if w = Plain (Val JNull) \<or> w = Plain (Val JUndefined) then b else w)"

text \<open>Reading a property of a data object: \<^verbatim>\<open>undefined\<close> when the document lacks it.\<close>

definition data_get :: "document \<Rightarrow> string \<Rightarrow> fvalue" where
  "data_get d k = (case d k of None \<Rightarrow> Val JUndefined | Some f \<Rightarrow> f)"

text \<open>Object spread \<^verbatim>\<open>{ ...d, ...data }\<close>, the properties of \<open>data\<close> in their order.\<close>

fun assign :: "(string \<times> 'a) list \<Rightarrow> (string \<rightharpoonup> 'a) \<Rightarrow> (string \<rightharpoonup> 'a)" where
  "assign [] d = d"
| "assign ((k, f) # data) d = assign data (d(k \<mapsto> f))"

fun resolve :: "int \<Rightarrow> wvalue \<Rightarrow> fvalue" where
  "resolve t ServerTimestamp = Timestamp t"
| "resolve t (Plain f) = f"

text \<open>
  The writes.  Firestore rejects data holding \<^verbatim>\<open>undefined\<close> (the source does not set
  \<^verbatim>\<open>ignoreUndefinedProperties\<close>): the promise is rejected and nothing is written.
  \<^verbatim>\<open>set\<close> replaces the document, \<^verbatim>\<open>update\<close> overwrites the given fields of a document
  that exists.
\<close>

definition has_undefined :: "(string \<times> wvalue) list \<Rightarrow> bool" where
  "has_undefined data = list_ex (\<lambda>(k, w). w = Plain (Val JUndefined)) data"

definition doc_set ::
  "int \<Rightarrow> string \<Rightarrow> (string \<times> wvalue) list \<Rightarrow> firestore \<Rightarrow> exn + firestore" where
  "doc_set t uid data db =
     (if has_undefined data then Inl (Exn ''Cannot use undefined as a Firestore value'')
      else Inr (db(uid \<mapsto> assign (map (\<lambda>(k, w). (k, resolve t w)) data) Map.empty)))"

definition doc_update ::
  "int \<Rightarrow> string \<Rightarrow> (string \<times> wvalue) list \<Rightarrow> firestore \<Rightarrow> exn + firestore" where
  "doc_update t uid data db =
     (if has_undefined data then Inl (Exn ''Cannot use undefined as a Firestore value'')
      else (case db uid of
              None \<Rightarrow> Inl (Exn ''No document to update'')
            | Some d \<Rightarrow> Inr (db(uid \<mapsto> assign (map (\<lambda>(k, w). (k, resolve t w)) data) d))))"

text \<open>The field \<open>k\<close> of the document stored under \<open>uid\<close>.\<close>

definition stored_field :: "firestore \<Rightarrow> string \<Rightarrow> string \<Rightarrow> fvalue option" where
  "stored_field db uid k = (case db uid of None \<Rightarrow> None | Some d \<Rightarrow> d k)"

section \<open>The route \<^verbatim>\<open>POST /api/auth/validate\<close>\<close>

text \<open>
  What the handler reads from its surroundings: \<^verbatim>\<open>process.env.TELEGRAM_BOT_TOKEN\<close>,
  \<^verbatim>\<open>Date.now()\<close>, the time the store assigns to a write, and the random pool of
  \<^verbatim>\<open>nanoid\<close>.
\<close>

record env =
  TELEGRAM_BOT_TOKEN :: "string option"
  clock :: int
  serverTime :: int
  random :: "nat \<Rightarrow> byte"

datatype body =
    Message string
  | MessageError string string
  | MessageUser string "string \<rightharpoonup> wvalue"

type_synonym response = "nat \<times> body"

text \<open>
  Lines 177 to 183: the fields written for a user that exists, from the claim and the
  stored data.
\<close>

definition updateData :: "jsval \<Rightarrow> document \<Rightarrow> (string \<times> wvalue) list" where
  "updateData telegramUser existingData =
     [(''lastLogin'', ServerTimestamp),
      (''username'',
         Plain (or_else (or_else (Val (js_get telegramUser ''username''))
                           (data_get existingData ''username'')) (Val JNull))),
      (''firstName'',
         Plain (or_else (Val (js_get telegramUser ''first_name''))
                  (data_get existingData ''firstName''))),
      (''lastName'',
         Plain (or_else (or_else (Val (js_get telegramUser ''last_name''))
                           (data_get existingData ''lastName'')) (Val JNull))),
      (''languageCode'',
         Plain (or_else (Val (js_get telegramUser ''language_code''))
                  (data_get existingData ''languageCode'')))]"

text \<open>Lines 195 to 213: the profile of a new user.\<close>

definition newUserProfile :: "env \<Rightarrow> jsval \<Rightarrow> (string \<times> wvalue) list" where
  "newUserProfile env telegramUser =
     [(''userId'', Plain (Val (js_get telegramUser ''id''))),
      (''username'', Plain (or_else (Val (js_get telegramUser ''username'')) (Val JNull))),
      (''firstName'',
         Plain (or_else (Val (js_get telegramUser ''first_name'')) (Val (JStr ''User'')))),
      (''lastName'', Plain (or_else (Val (js_get telegramUser ''last_name'')) (Val JNull))),
      (''languageCode'',
         Plain (or_else (Val (js_get telegramUser ''language_code'')) (Val (JStr ''en'')))),
      (''tokens'', Plain (Val (JNum 0 0))),
      (''referralCode'', Plain (Val (JStr (nanoid (random env) 8)))),
      (''referredBy'', Plain (Val JNull)),
      (''referralsMade'', Plain (Val (JNum 0 0))),
      (''createdAt'', ServerTimestamp),
      (''lastLogin'', ServerTimestamp),
      (''connectedWallet'', Plain (Val JNull))]"

text \<open>
  Lines 163 to 230: the profile of a verified user is looked up under
  \<^verbatim>\<open>String(telegramUser.id)\<close>, then updated or created.  The result is the response and
  the collection after the request.  A rejected write is caught and answered with 500.
\<close>

definition sync :: "env \<Rightarrow> jsval \<Rightarrow> firestore \<Rightarrow> response \<times> firestore" where
  "sync env telegramUser db =
     (let userIdString = js_String (js_get telegramUser ''id'')
      in case db userIdString of
           Some existingData \<Rightarrow>
             (case doc_update (serverTime env) userIdString
                     (updateData telegramUser existingData) db of
                Inl e \<Rightarrow>
                  ((500, Message ''Internal server error interacting with database.''), db)
              | Inr db' \<Rightarrow>
                  (let userProfileData =
                         assign (updateData telegramUser existingData)
                           (map_option Plain \<circ> existingData);
                       userProfileData = userProfileData(''tokens'' \<mapsto>
                         nullish (userProfileData ''tokens'') (Plain (Val (JNum 0 0))));
                       userProfileData = userProfileData(''referralsMade'' \<mapsto>
                         nullish (userProfileData ''referralsMade'') (Plain (Val (JNum 0 0))))
                   in ((200, MessageUser ''User validated and profile retrieved/created.''
                               userProfileData), db')))
         | None \<Rightarrow>
             (case doc_set (serverTime env) userIdString (newUserProfile env telegramUser) db of
                Inl e \<Rightarrow>
                  ((500, Message ''Internal server error interacting with database.''), db)
              | Inr db' \<Rightarrow>
                  ((200, MessageUser ''User validated and profile retrieved/created.''
                           (assign (newUserProfile env telegramUser) Map.empty)), db')))"

text \<open>
  Lines 140 to 231.  \<open>initData\<close> is the property of the request body, \<open>None\<close> when the
  body has none.
\<close>

definition auth_validate :: "env \<Rightarrow> string option \<Rightarrow> firestore \<Rightarrow> response \<times> firestore" where
  "auth_validate env initData db =
     (if initData = None \<or> initData = Some [] then ((400, Message ''Missing initData''), db)
      else if TELEGRAM_BOT_TOKEN env = None \<or> TELEGRAM_BOT_TOKEN env = Some [] then
        ((500, Message ''Server configuration error''), db)
      else
        (let validationResult =
               fst (isValidTelegramData (clock env) (the initData) (the (TELEGRAM_BOT_TOKEN env)))
         in if \<not> valid validationResult \<or> \<not> truthy (user validationResult) then
              ((401, MessageError ''Invalid or expired initData''
                       (case error validationResult of
                          None \<Rightarrow> ''Validation failed''
                        | Some e \<Rightarrow> if e = [] then ''Validation failed'' else e)), db)
            else sync env (user validationResult) db))"

section \<open>The specification's notions\<close>

text \<open>
  The canonical data-check string in the words of the specification: the pairs other than
  \<^verbatim>\<open>hash\<close>, sorted by key, each written \<^verbatim>\<open>key=value\<close>, joined with newlines, no newline
  at the end.  Pairs with the same key keep the order of the input.
\<close>

definition spec_dataCheckString :: "(string \<times> string) list \<Rightarrow> string" where
  "spec_dataCheckString pairs =
     butlast (concat (map (\<lambda>(k, v). k @ ''='' @ v @ [CHR 0x0A])
                        (sort_key fst (filter (\<lambda>(k, v). k \<noteq> ''hash'') pairs))))"

text \<open>
  \<open>hex(HMAC-SHA256(key = HMAC-SHA256(key = "WebAppData", message = secret),
  message = dataCheckString))\<close>.
\<close>

definition spec_hash :: "string \<Rightarrow> (string \<times> string) list \<Rightarrow> string" where
  "spec_hash secret pairs =
     hex (hmac_sha256 (hmac_sha256 (utf8 ''WebAppData'') (utf8 secret))
            (utf8 (spec_dataCheckString pairs)))"

text \<open>
  A payload as the issuing platform signs it: the fields, then the \<^verbatim>\<open>hash\<close> pair
  computed from them with the secret.
\<close>

definition signed_initData :: "string \<Rightarrow> string \<Rightarrow> string" where
  "signed_initData secret unsignedData =
     unsignedData @ ''&hash='' @ spec_hash secret (URLSearchParams unsignedData)"



text \<open>
  The identity claim of the data model: an object with an integer \<^verbatim>\<open>id\<close> whose optional
  fields \<^verbatim>\<open>username\<close>, \<^verbatim>\<open>first_name\<close>, \<^verbatim>\<open>last_name\<close> and \<^verbatim>\<open>language_code\<close> are
  strings.
\<close>

definition optional_string :: "jsval \<Rightarrow> bool" where
  "optional_string v = (case v of JUndefined \<Rightarrow> True | JStr s \<Rightarrow> True | _ \<Rightarrow> False)"

definition identity_claim :: "jsval \<Rightarrow> bool" where
  "identity_claim c =
     ((case c of JObj ms \<Rightarrow> True | _ \<Rightarrow> False)
      \<and> (case js_get c ''id'' of JNum m k \<Rightarrow> k = 0 | _ \<Rightarrow> False)
      \<and> optional_string (js_get c ''username'')
      \<and> optional_string (js_get c ''first_name'')
      \<and> optional_string (js_get c ''last_name'')
      \<and> optional_string (js_get c ''language_code''))"

text \<open>The fields of a profile that a later sign-in must leave alone.\<close>

definition preserved_fields :: "string list" where
  "preserved_fields =
     [''tokens'', ''referralCode'', ''referredBy'', ''referralsMade'', ''createdAt'',
      ''connectedWallet'']"

section \<open>Example data\<close>

text \<open>An environment, a stored profile and a collection that holds it under the key 42.\<close>

definition example_env :: env where
  "example_env =
     \<lparr>TELEGRAM_BOT_TOKEN = Some ''S3cr3t'', clock = 1800000000000, serverTime = 1800000000,
      random = (\<lambda>i. of_nat (37 * i + 5))\<rparr>"

definition example_profile :: document where
  "example_profile =
     [''userId'' \<mapsto> Val (JNum 42 0),
      ''username'' \<mapsto> Val (JStr ''bob''),
      ''firstName'' \<mapsto> Val (JStr ''Bob''),
      ''lastName'' \<mapsto> Val JNull,
      ''languageCode'' \<mapsto> Val (JStr ''en''),
      ''tokens'' \<mapsto> Val (JNum 5 0),
      ''referralCode'' \<mapsto> Val (JStr ''AbCd1234''),
      ''referredBy'' \<mapsto> Val JNull,
      ''referralsMade'' \<mapsto> Val (JNum 2 0),
      ''createdAt'' \<mapsto> Timestamp 1700000000,
      ''lastLogin'' \<mapsto> Timestamp 1700000000,
      ''connectedWallet'' \<mapsto> Val JNull]"

definition example_db :: firestore where
  "example_db = [''42'' \<mapsto> example_profile]"

section \<open>Auxiliary facts\<close>

subsection \<open>Digests\<close>

lemma length_rounds: "length s = 8 \<Longrightarrow> length (rounds ks ws s) = 8"
  by (induction ks ws s rule: rounds.induct) (auto simp: Let_def)

lemma length_blocks: "length hs = 8 \<Longrightarrow> length (blocks n hs bs) = 8"
  by (induction n arbitrary: hs bs) (simp_all add: compress_def length_rounds)

lemma length_sha256: "length (sha256 m) = 32"
proof -
  have "length (concat (map w32_bytes ws)) = 4 * length ws" for ws
    by (induction ws) (simp_all add: w32_bytes_def)
  then show ?thesis
    by (simp add: sha256_def Let_def length_blocks H256_def)
qed

lemma length_hmac_sha256: "length (hmac_sha256 k m) = 32"
  by (simp add: hmac_sha256_def Let_def length_sha256)

lemma length_hex: "length (hex bs) = 2 * length bs"
  by (induction bs) (simp_all add: hex_def)

lemma hexdigit_in: "n < 16 \<Longrightarrow> hexdigit n \<in> set ''0123456789abcdef''"
  unfolding hexdigit_def by (rule nth_mem) simp

lemma set_hex: "set (hex bs) \<subseteq> set ''0123456789abcdef''"
proof -
  have "hexdigit (unat b div 16) \<in> set ''0123456789abcdef''
      \<and> hexdigit (unat b mod 16) \<in> set ''0123456789abcdef''" for b :: byte
    using unsigned_less [of b, where ?'a = nat]
    by (intro conjI hexdigit_in) (simp_all add: less_mult_imp_div_less)
  then show ?thesis
    by (induction bs) (simp_all add: hex_def)
qed

lemma length_spec_hash: "length (spec_hash secret ps) = 64"
  by (simp add: spec_hash_def length_hex length_hmac_sha256)

lemma set_spec_hash: "set (spec_hash secret ps) \<subseteq> set ''0123456789abcdef''"
  unfolding spec_hash_def by (rule set_hex)

lemma dataCheckArr_foldl:
  "foldl (\<lambda>arr (key, val). arr @ [key @ ''='' @ val]) acc ps
     = acc @ map (\<lambda>(k, v). k @ ''='' @ v) ps"
  by (induction ps arbitrary: acc) auto

lemma dataCheckArr_map: "dataCheckArr ps = map (\<lambda>(k, v). k @ ''='' @ v) ps"
  unfolding dataCheckArr_def using dataCheckArr_foldl [of "[]" ps] by simp

lemma join_butlast: "join [n] xs = butlast (concat (map (\<lambda>x. x @ [n]) xs))"
  by (induction "[n]" xs rule: join.induct) (simp_all add: butlast_append)

lemma delete_filter: "URLSearchParams_delete n ps = filter (\<lambda>(k, v). k \<noteq> n) ps"
  by (induction ps) auto

lemma dataCheckString_spec:
  "join [CHR 0x0A] (dataCheckArr (URLSearchParams_sort (URLSearchParams_delete ''hash'' ps)))
     = spec_dataCheckString ps"
  by (simp add: join_butlast dataCheckArr_map delete_filter URLSearchParams_sort_def
        spec_dataCheckString_def comp_def case_prod_unfold)

lemma get_filter:
  "URLSearchParams_get n ps =
     (case filter (\<lambda>p. fst p = n) ps of [] \<Rightarrow> None | p # qs \<Rightarrow> Some (snd p))"
  by (induction ps) auto

lemma get_sort: "URLSearchParams_get n (URLSearchParams_sort ps) = URLSearchParams_get n ps"
  by (simp add: get_filter URLSearchParams_sort_def sort_key_stable)

lemma get_delete: "n \<noteq> m \<Longrightarrow> URLSearchParams_get n (URLSearchParams_delete m ps) = URLSearchParams_get n ps"
  by (induction ps) auto

lemma node_hash:
  "(case node_createHmac (utf8 ''WebAppData'') (utf8 botToken) of
      Inl e \<Rightarrow> f e
    | Inr secretKey \<Rightarrow>
        (case node_createHmac secretKey (utf8 (spec_dataCheckString ps)) of
           Inl e \<Rightarrow> g e
         | Inr digest \<Rightarrow> h (hex digest))) = h (spec_hash botToken ps)"
  by (simp add: node_createHmac_def spec_hash_def)

lemma verdict_cases:
  assumes "initData \<noteq> []" "botToken \<noteq> []"
  shows "fst (isValidTelegramData now initData botToken) =
     (let ps = URLSearchParams initData
      in case URLSearchParams_get ''hash'' ps of
           None \<Rightarrow> invalid (Some ''Hash missing'')
         | Some h \<Rightarrow>
             if h = [] then invalid (Some ''Hash missing'')
             else if h \<noteq> spec_hash botToken ps then invalid (Some ''Hash mismatch'')
             else (case URLSearchParams_get ''user'' ps of
                     None \<Rightarrow> invalid (Some ''User data missing'')
                   | Some userJson \<Rightarrow>
                       if userJson = [] then invalid (Some ''User data missing'')
                       else (case JSON_parse userJson of
                               None \<Rightarrow> invalid (Some ''Invalid user data format'')
                             | Some u \<Rightarrow> \<lparr>valid = True, user = u, error = None\<rparr>)))"
  using assms
  by (auto simp: isValidTelegramData_def isValidTelegramData_with_def validate_try_def Let_def
        dataCheckString_spec node_createHmac_def spec_hash_def get_sort get_delete
        split: option.splits)


lemma split_on_not_Nil: "split_on d s \<noteq> []"
  by (induction s) (auto split: list.splits)

lemma split_on_append: "split_on d (b @ d # t) = split_on d b @ split_on d t"
  by (induction b) (auto simp: split_on_not_Nil split: list.splits)

lemma split_on_none: "d \<notin> set t \<Longrightarrow> split_on d t = [t]"
  by (induction t) auto

lemma percent_decode_id: "CHR ''%'' \<notin> set s \<Longrightarrow> percent_decode s = s"
  by (induction s rule: percent_decode.induct) auto

lemma form_decode_id: "CHR ''%'' \<notin> set s \<Longrightarrow> CHR ''+'' \<notin> set s \<Longrightarrow> form_decode s = s"
proof -
  assume a: "CHR ''%'' \<notin> set s" and b: "CHR ''+'' \<notin> set s"
  from b have "map (\<lambda>c. if c = CHR ''+'' then CHR '' '' else c) s = s"
    by (induction s) auto
  with a show ?thesis
    by (simp add: form_decode_def percent_decode_id)
qed

lemma URLSearchParams_hash_suffix:
  assumes "set h \<subseteq> set ''0123456789abcdef''"
  shows "URLSearchParams (a @ ''&hash='' @ h) = URLSearchParams a @ [(''hash'', h)]"
proof -
  have h: "CHR ''&'' \<notin> set h" "CHR ''%'' \<notin> set h" "CHR ''+'' \<notin> set h"
    using assms by auto
  have pair: "parse_pair (''hash='' @ h) = (''hash'', h)"
    using h by (simp add: parse_pair_def form_decode_id)
  have split: "split_on CHR ''&'' (b @ ''&hash='' @ h) = split_on CHR ''&'' b @ [''hash='' @ h]" for b
    using split_on_append [of "CHR ''&''" b "''hash='' @ h"] h
    by (simp add: split_on_none)
  show ?thesis
  proof (cases a)
    case Nil
    then show ?thesis
      using split [of "[]"] pair by (simp add: URLSearchParams_def)
  next
    case (Cons c r)
    then show ?thesis
      using split [of r] split [of "c # r"] pair by (simp add: URLSearchParams_def)
  qed
qed

lemma signed_params:
  "URLSearchParams (signed_initData s a)
     = URLSearchParams a @ [(''hash'', spec_hash s (URLSearchParams a))]"
  unfolding signed_initData_def by (rule URLSearchParams_hash_suffix) (rule set_spec_hash)

lemma spec_hash_append_hash: "spec_hash s (ps @ [(''hash'', h)]) = spec_hash s ps"
  by (simp add: spec_hash_def spec_dataCheckString_def)

lemma get_append:
  "URLSearchParams_get n (ps @ qs) =
     (case URLSearchParams_get n ps of None \<Rightarrow> URLSearchParams_get n qs | Some v \<Rightarrow> Some v)"
  by (induction ps) auto

lemma spec_hash_not_Nil: "spec_hash s ps \<noteq> []"
  using length_spec_hash [of s ps] by auto

lemma signed_initData_not_Nil: "signed_initData s a \<noteq> []"
  by (simp add: signed_initData_def)

lemma signed_verdict:
  assumes "botToken \<noteq> []" "URLSearchParams_get ''hash'' (URLSearchParams a) = None"
  shows "fst (isValidTelegramData now (signed_initData botToken a) botToken) =
     (case URLSearchParams_get ''user'' (URLSearchParams a) of
        None \<Rightarrow> invalid (Some ''User data missing'')
      | Some userJson \<Rightarrow>
          if userJson = [] then invalid (Some ''User data missing'')
          else (case JSON_parse userJson of
                  None \<Rightarrow> invalid (Some ''Invalid user data format'')
                | Some u \<Rightarrow> \<lparr>valid = True, user = u, error = None\<rparr>))"
  using assms
  by (simp add: verdict_cases signed_initData_not_Nil signed_params get_append
        spec_hash_append_hash spec_hash_not_Nil Let_def split: option.splits)

lemma params_scenario:
  "URLSearchParams ''auth_date=1700000000&user=%7B%22id%22%3A42%2C%22first_name%22%3A%22Ann%22%7D''
     = [(''auth_date'', ''1700000000''),
        (''user'', percent_decode ''%7B%22id%22%3A42%2C%22first_name%22%3A%22Ann%22%7D'')]"
  by code_simp

lemma json_scenario:
  "JSON_parse (percent_decode ''%7B%22id%22%3A42%2C%22first_name%22%3A%22Ann%22%7D'')
     = Some (JObj [(''id'', JNum 42 0), (''first_name'', JStr ''Ann'')])"
  by code_simp

lemma scenario_nonempty: "percent_decode ''%7B%22id%22%3A42%2C%22first_name%22%3A%22Ann%22%7D'' \<noteq> []"
  by code_simp

lemma scenario_valid:
  "fst (isValidTelegramData 1800000000000
          (signed_initData ''S3cr3t''
             ''auth_date=1700000000&user=%7B%22id%22%3A42%2C%22first_name%22%3A%22Ann%22%7D'')
          ''S3cr3t'')
     = \<lparr>valid = True, user = JObj [(''id'', JNum 42 0), (''first_name'', JStr ''Ann'')],
        error = None\<rparr>"
  by (simp add: signed_verdict params_scenario json_scenario scenario_nonempty
        del: percent_decode.simps)


lemma params_user_null: "URLSearchParams ''user=null'' = [(''user'', ''null'')]"
  by code_simp

lemma json_null: "JSON_parse ''null'' = Some JNull"
  by code_simp


lemma sort_key_cong_per_key:
  assumes m: "mset ys = mset xs"
    and k: "\<And>k. filter (\<lambda>p. f p = k) ys = filter (\<lambda>p. f p = k) xs"
  shows "sort_key f xs = sort_key f ys"
proof (rule properties_for_sort_key)
  show "mset (sort_key f ys) = mset xs"
    using m by simp
  show "sorted (map f (sort_key f ys))"
    by simp
  fix q
  have "filter (\<lambda>x. f x = f q) (sort_key f ys) = filter (\<lambda>x. f x = f q) xs"
    by (simp add: sort_key_stable k)
  moreover have "(\<lambda>x. f q = f x) = (\<lambda>x. f x = f q)"
    by auto
  ultimately show "filter (\<lambda>x. f q = f x) (sort_key f ys) = filter (\<lambda>x. f q = f x) xs"
    by simp
qed

lemma spec_dataCheckString_per_key:
  assumes m: "mset ys = mset xs"
    and k: "\<And>k. filter (\<lambda>p. fst p = k) ys = filter (\<lambda>p. fst p = k) xs"
  shows "spec_dataCheckString xs = spec_dataCheckString ys"
proof -
  let ?nh = "\<lambda>(k, v). k \<noteq> ''hash''"
  have "filter (\<lambda>p. fst p = k) (filter ?nh ys) = filter (\<lambda>p. fst p = k) (filter ?nh xs)" for k
  proof -
    have "filter (\<lambda>p. fst p = k) (filter ?nh zs)
            = (if k = ''hash'' then [] else filter (\<lambda>p. fst p = k) zs)" for zs
      by (induction zs) auto
    then have "filter (\<lambda>p. fst p = k) (filter ?nh ys)
                 = (if k = ''hash'' then [] else filter (\<lambda>p. fst p = k) ys)"
      and "filter (\<lambda>p. fst p = k) (filter ?nh xs)
                 = (if k = ''hash'' then [] else filter (\<lambda>p. fst p = k) xs)"
      by blast+
    then show ?thesis
      by (simp only: k)
  qed
  moreover have "mset (filter ?nh ys) = mset (filter ?nh xs)"
    using m by simp
  ultimately have "sort_key fst (filter ?nh xs) = sort_key fst (filter ?nh ys)"
    by (rule sort_key_cong_per_key [rotated])
  then show ?thesis
    by (simp add: spec_dataCheckString_def)
qed

lemma get_per_key:
  "filter (\<lambda>p. fst p = k) ys = filter (\<lambda>p. fst p = k) xs
     \<Longrightarrow> URLSearchParams_get k ys = URLSearchParams_get k xs"
  by (simp add: get_filter)

subsection \<open>The profile store\<close>

lemma length_nanoid: "length (nanoid pool n) = n"
  by (simp add: nanoid_def)

lemma sync_existing:
  assumes "db (js_String (js_get telegramUser ''id'')) = Some existingData"
  shows "sync env telegramUser db =
     (if has_undefined (updateData telegramUser existingData) then
        ((500, Message ''Internal server error interacting with database.''), db)
      else
        ((200, MessageUser ''User validated and profile retrieved/created.''
            (let userProfileData =
                   assign (updateData telegramUser existingData)
                     (map_option Plain \<circ> existingData);
                 userProfileData = userProfileData(''tokens'' \<mapsto>
                   nullish (userProfileData ''tokens'') (Plain (Val (JNum 0 0))));
                 userProfileData = userProfileData(''referralsMade'' \<mapsto>
                   nullish (userProfileData ''referralsMade'') (Plain (Val (JNum 0 0))))
             in userProfileData)),
         db(js_String (js_get telegramUser ''id'') \<mapsto>
              assign (map (\<lambda>(k, w). (k, resolve (serverTime env) w))
                        (updateData telegramUser existingData)) existingData)))"
  using assms by (simp add: sync_def doc_update_def Let_def)

lemma sync_new:
  assumes "db (js_String (js_get telegramUser ''id'')) = None"
  shows "sync env telegramUser db =
     (if has_undefined (newUserProfile env telegramUser) then
        ((500, Message ''Internal server error interacting with database.''), db)
      else
        ((200, MessageUser ''User validated and profile retrieved/created.''
            (assign (newUserProfile env telegramUser) Map.empty)),
         db(js_String (js_get telegramUser ''id'') \<mapsto>
              assign (map (\<lambda>(k, w). (k, resolve (serverTime env) w))
                        (newUserProfile env telegramUser)) Map.empty)))"
  using assms by (simp add: sync_def doc_set_def Let_def)

lemma updated_fields:
  "assign (map (\<lambda>(k, w). (k, resolve t w)) (updateData u d)) d =
     d(''lastLogin'' \<mapsto> Timestamp t,
       ''username'' \<mapsto> or_else (or_else (Val (js_get u ''username''))
                                    (data_get d ''username'')) (Val JNull),
       ''firstName'' \<mapsto> or_else (Val (js_get u ''first_name'')) (data_get d ''firstName''),
       ''lastName'' \<mapsto> or_else (or_else (Val (js_get u ''last_name''))
                                    (data_get d ''lastName'')) (Val JNull),
       ''languageCode'' \<mapsto> or_else (Val (js_get u ''language_code''))
                              (data_get d ''languageCode''))"
  by (simp add: updateData_def)

lemma has_undefined_updateData:
  "has_undefined (updateData u d) \<longleftrightarrow>
     or_else (Val (js_get u ''first_name'')) (data_get d ''firstName'') = Val JUndefined
     \<or> or_else (Val (js_get u ''language_code'')) (data_get d ''languageCode'') = Val JUndefined"
  by (auto simp: has_undefined_def updateData_def or_else_def)

lemma or_else_defined:
  "or_else (Val v) (data_get d k) \<noteq> Val JUndefined
     \<Longrightarrow> Some (or_else (Val v) (data_get d k)) = (if truthy v then Some (Val v) else d k)"
  by (auto simp: or_else_def data_get_def split: option.splits if_splits)

lemma show_num_42: "show_num 42 0 = ''42''"
  by code_simp

lemma has_undefined_newUserProfile:
  "has_undefined (newUserProfile env u) \<longleftrightarrow> js_get u ''id'' = JUndefined"
  by (auto simp: has_undefined_def newUserProfile_def or_else_def)

section \<open>The claims\<close>








text \<open>
  C3 (amended).  A verdict with \<^verbatim>\<open>valid = true\<close> has no reason code and carries the value
  that \<^verbatim>\<open>JSON.parse\<close> returns for the first, non-empty \<^verbatim>\<open>user\<close> value of the payload;
  a verdict with \<^verbatim>\<open>valid = false\<close> carries \<^verbatim>\<open>user = null\<close>.
\<close>

theorem C3_claim_of_verdict:
  "(valid (fst (isValidTelegramData now initData botToken)) \<longrightarrow>
      error (fst (isValidTelegramData now initData botToken)) = None
      \<and> (\<exists>userJson. userJson \<noteq> []
            \<and> URLSearchParams_get ''user'' (URLSearchParams initData) = Some userJson
            \<and> JSON_parse userJson = Some (user (fst (isValidTelegramData now initData botToken)))))
   \<and> (\<not> valid (fst (isValidTelegramData now initData botToken)) \<longrightarrow>
        user (fst (isValidTelegramData now initData botToken)) = JNull)"
proof (cases "initData = [] \<or> botToken = []")
  case True
  then show ?thesis
    by (auto simp: isValidTelegramData_def isValidTelegramData_with_def invalid_def)
next
  case False
  then show ?thesis
    by (auto simp: verdict_cases Let_def invalid_def split: option.splits)
qed

text \<open>
  C3 as stated fails when the \<^verbatim>\<open>user\<close> value is the JSON text \<^verbatim>\<open>null\<close>: the signed
  payload is valid and its claim is \<^verbatim>\<open>null\<close>.  The route guards against it with
  \<^verbatim>\<open>!validationResult.user\<close>.
\<close>

theorem C3_counterexample:
  "valid (fst (isValidTelegramData 0 (signed_initData ''S3cr3t'' ''user=null'') ''S3cr3t''))
   \<and> user (fst (isValidTelegramData 0 (signed_initData ''S3cr3t'' ''user=null'') ''S3cr3t''))
       = JNull"
  by (simp add: signed_verdict params_user_null json_null)

text \<open>A signed payload and a payload with a wrong hash.\<close>

theorem C3_witness:
  "valid (fst (isValidTelegramData 0 (signed_initData ''S3cr3t'' ''user=%7B%22id%22%3A42%7D'')
               ''S3cr3t''))
   \<and> JSON_parse (percent_decode ''%7B%22id%22%3A42%7D'')
       = Some (user (fst (isValidTelegramData 0
                 (signed_initData ''S3cr3t'' ''user=%7B%22id%22%3A42%7D'') ''S3cr3t'')))
   \<and> \<not> valid (fst (isValidTelegramData 0 ''user=%7B%22id%22%3A42%7D&hash=ab'' ''S3cr3t''))
   \<and> user (fst (isValidTelegramData 0 ''user=%7B%22id%22%3A42%7D&hash=ab'' ''S3cr3t'')) = JNull"
proof -
  let ?a = "''user=%7B%22id%22%3A42%7D''"
  have params: "URLSearchParams ?a = [(''user'', percent_decode ''%7B%22id%22%3A42%7D'')]"
    by code_simp
  have json: "JSON_parse (percent_decode ''%7B%22id%22%3A42%7D'') = Some (JObj [(''id'', JNum 42 0)])"
    by code_simp
  have nonempty: "percent_decode ''%7B%22id%22%3A42%7D'' \<noteq> []"
    by code_simp
  have good: "valid (fst (isValidTelegramData 0 (signed_initData ''S3cr3t'' ?a) ''S3cr3t''))"
    by (simp add: signed_verdict params json nonempty del: percent_decode.simps)
  have params': "URLSearchParams ''user=%7B%22id%22%3A42%7D&hash=ab''
                   = [(''user'', percent_decode ''%7B%22id%22%3A42%7D''), (''hash'', ''ab'')]"
    by code_simp
  have "length (spec_hash ''S3cr3t'' ps) \<noteq> length ''ab''" for ps
    by (simp add: length_spec_hash)
  then have differ: "''ab'' \<noteq> spec_hash ''S3cr3t'' ps" for ps
    by metis
  have bad: "\<not> valid (fst (isValidTelegramData 0 ''user=%7B%22id%22%3A42%7D&hash=ab'' ''S3cr3t''))"
    using differ by (simp add: verdict_cases params' invalid_def del: percent_decode.simps)
  have user: "URLSearchParams_get ''user'' (URLSearchParams (signed_initData ''S3cr3t'' ?a))
                = Some (percent_decode ''%7B%22id%22%3A42%7D'')"
    by (simp add: signed_params params del: percent_decode.simps)
  show ?thesis
    using C3_claim_of_verdict [of 0 "signed_initData ''S3cr3t'' ?a" "''S3cr3t''"]
      C3_claim_of_verdict [of 0 "''user=%7B%22id%22%3A42%7D&hash=ab''" "''S3cr3t''"]
      good bad user
    by (auto simp del: percent_decode.simps)
qed

text \<open>
  C4 (amended).  For every stored profile, a successful sync for its user leaves
  \<^verbatim>\<open>tokens\<close>, \<^verbatim>\<open>referralCode\<close>, \<^verbatim>\<open>referredBy\<close>, \<^verbatim>\<open>referralsMade\<close>, \<^verbatim>\<open>createdAt\<close>
  and \<^verbatim>\<open>connectedWallet\<close> unchanged, sets \<^verbatim>\<open>lastLogin\<close> to the time of the server, and
  sets each of \<^verbatim>\<open>username\<close>, \<^verbatim>\<open>firstName\<close>, \<^verbatim>\<open>lastName\<close> and \<^verbatim>\<open>languageCode\<close> to the
  claim's value if that value is truthy (present and not empty), else keeps the stored
  value; a \<^verbatim>\<open>username\<close> or \<^verbatim>\<open>lastName\<close> for which neither is truthy is stored as
  \<^verbatim>\<open>null\<close>.  The profiles of other users are not touched.
\<close>

theorem C4_existing_profile:
  assumes "db (js_String (js_get telegramUser ''id'')) = Some existingData"
    and "sync env telegramUser db = ((200, b), db')"
  shows "db' (js_String (js_get telegramUser ''id'')) \<noteq> None
     \<and> (\<forall>k \<in> set preserved_fields.
           stored_field db' (js_String (js_get telegramUser ''id'')) k = existingData k)
     \<and> stored_field db' (js_String (js_get telegramUser ''id'')) ''lastLogin''
         = Some (Timestamp (serverTime env))
     \<and> stored_field db' (js_String (js_get telegramUser ''id'')) ''username''
         = Some (if truthy (js_get telegramUser ''username'')
                 then Val (js_get telegramUser ''username'')
                 else if field_truthy (data_get existingData ''username'')
                 then data_get existingData ''username'' else Val JNull)
     \<and> stored_field db' (js_String (js_get telegramUser ''id'')) ''firstName''
         = (if truthy (js_get telegramUser ''first_name'')
            then Some (Val (js_get telegramUser ''first_name''))
            else existingData ''firstName'')
     \<and> stored_field db' (js_String (js_get telegramUser ''id'')) ''lastName''
         = Some (if truthy (js_get telegramUser ''last_name'')
                 then Val (js_get telegramUser ''last_name'')
                 else if field_truthy (data_get existingData ''lastName'')
                 then data_get existingData ''lastName'' else Val JNull)
     \<and> stored_field db' (js_String (js_get telegramUser ''id'')) ''languageCode''
         = (if truthy (js_get telegramUser ''language_code'')
            then Some (Val (js_get telegramUser ''language_code''))
            else existingData ''languageCode'')
     \<and> (\<forall>uid. uid \<noteq> js_String (js_get telegramUser ''id'') \<longrightarrow> db' uid = db uid)"
proof -
  let ?uid = "js_String (js_get telegramUser ''id'')"
  let ?t = "serverTime env"
  from assms have ok: "\<not> has_undefined (updateData telegramUser existingData)"
    by (auto simp: sync_existing split: if_splits)
  with assms have db': "db' = db(?uid \<mapsto>
      assign (map (\<lambda>(k, w). (k, resolve ?t w)) (updateData telegramUser existingData))
        existingData)"
    by (simp add: sync_existing)
  from ok have first: "Some (or_else (Val (js_get telegramUser ''first_name''))
                               (data_get existingData ''firstName''))
      = (if truthy (js_get telegramUser ''first_name'')
         then Some (Val (js_get telegramUser ''first_name'')) else existingData ''firstName'')"
    by (intro or_else_defined) (simp add: has_undefined_updateData)
  from ok have lang: "Some (or_else (Val (js_get telegramUser ''language_code''))
                              (data_get existingData ''languageCode''))
      = (if truthy (js_get telegramUser ''language_code'')
         then Some (Val (js_get telegramUser ''language_code''))
         else existingData ''languageCode'')"
    by (intro or_else_defined) (simp add: has_undefined_updateData)
  have frame: "\<forall>k \<in> set preserved_fields. stored_field db' ?uid k = existingData k"
    by (simp add: db' stored_field_def updated_fields preserved_fields_def)
  have login: "stored_field db' ?uid ''lastLogin'' = Some (Timestamp ?t)"
    by (simp add: db' stored_field_def updated_fields)
  have username: "stored_field db' ?uid ''username''
         = Some (if truthy (js_get telegramUser ''username'')
                 then Val (js_get telegramUser ''username'')
                 else if field_truthy (data_get existingData ''username'')
                 then data_get existingData ''username'' else Val JNull)"
    by (simp add: db' stored_field_def updated_fields or_else_def)
  have lastName: "stored_field db' ?uid ''lastName''
         = Some (if truthy (js_get telegramUser ''last_name'')
                 then Val (js_get telegramUser ''last_name'')
                 else if field_truthy (data_get existingData ''lastName'')
                 then data_get existingData ''lastName'' else Val JNull)"
    by (simp add: db' stored_field_def updated_fields or_else_def)
  have firstName: "stored_field db' ?uid ''firstName''
         = (if truthy (js_get telegramUser ''first_name'')
            then Some (Val (js_get telegramUser ''first_name''))
            else existingData ''firstName'')"
    using first by (simp add: db' stored_field_def updated_fields)
  have languageCode: "stored_field db' ?uid ''languageCode''
         = (if truthy (js_get telegramUser ''language_code'')
            then Some (Val (js_get telegramUser ''language_code''))
            else existingData ''languageCode'')"
    using lang by (simp add: db' stored_field_def updated_fields)
  have others: "\<forall>uid. uid \<noteq> ?uid \<longrightarrow> db' uid = db uid"
    by (simp add: db')
  have present: "db' ?uid \<noteq> None"
    by (simp add: db')
  from present frame login username firstName lastName languageCode others
  show ?thesis
    by (intro conjI)
qed

text \<open>
  A claim with a new first name for the stored profile of user 42.
\<close>

theorem C4_witness:
  "fst (fst (sync example_env (JObj [(''id'', JNum 42 0), (''first_name'', JStr ''Ann'')])
               example_db)) = 200
   \<and> map (stored_field
           (snd (sync example_env (JObj [(''id'', JNum 42 0), (''first_name'', JStr ''Ann'')])
                   example_db)) ''42'')
        [''tokens'', ''referralCode'', ''referredBy'', ''referralsMade'', ''createdAt'',
         ''connectedWallet'', ''lastLogin'', ''username'', ''firstName'', ''lastName'',
         ''languageCode'']
       = [Some (Val (JNum 5 0)), Some (Val (JStr ''AbCd1234'')), Some (Val JNull),
          Some (Val (JNum 2 0)), Some (Timestamp 1700000000), Some (Val JNull),
          Some (Timestamp 1800000000), Some (Val (JStr ''bob'')), Some (Val (JStr ''Ann'')),
          Some (Val JNull), Some (Val (JStr ''en''))]"
proof -
  let ?u = "JObj [(''id'', JNum 42 0), (''first_name'', JStr ''Ann'')]"
  have old: "example_db (js_String (js_get ?u ''id'')) = Some example_profile"
    by (simp add: show_num_42 example_db_def)
  have defined: "\<not> has_undefined (updateData ?u example_profile)"
    by (simp add: has_undefined_updateData or_else_def example_profile_def data_get_def)
  have ok: "fst (fst (sync example_env ?u example_db)) = 200"
    using sync_existing [of example_db ?u example_profile example_env] old defined
    by simp
  then have run: "sync example_env ?u example_db
      = ((200, snd (fst (sync example_env ?u example_db))), snd (sync example_env ?u example_db))"
    by (metis prod.collapse)
  have time: "serverTime example_env = 1800000000"
    by (simp add: example_env_def)
  show ?thesis
    using C4_existing_profile [of example_db ?u example_profile example_env
        "snd (fst (sync example_env ?u example_db))" "snd (sync example_env ?u example_db)",
        OF old run] ok
    by (simp add: show_num_42 time preserved_fields_def example_profile_def data_get_def)
qed

text \<open>
  C4 as stated fails for a claim whose \<^verbatim>\<open>username\<close> is present and empty: the stored
  name stays, the claim's value is not written.
\<close>

theorem C4_counterexample:
  "js_get (JObj [(''id'', JNum 42 0), (''username'', JStr [])]) ''username'' = JStr []
   \<and> fst (fst (sync example_env (JObj [(''id'', JNum 42 0), (''username'', JStr [])])
                  example_db)) = 200
   \<and> example_profile ''username'' = Some (Val (JStr ''bob''))
   \<and> stored_field
        (snd (sync example_env (JObj [(''id'', JNum 42 0), (''username'', JStr [])])
                example_db)) ''42'' ''username''
       = Some (Val (JStr ''bob''))
   \<and> stored_field
        (snd (sync example_env (JObj [(''id'', JNum 42 0), (''username'', JStr [])])
                example_db)) ''42'' ''username''
       \<noteq> Some (Val (JStr []))"
proof -
  let ?u = "JObj [(''id'', JNum 42 0), (''username'', JStr [])]"
  have old: "example_db (js_String (js_get ?u ''id'')) = Some example_profile"
    by (simp add: show_num_42 example_db_def)
  have defined: "\<not> has_undefined (updateData ?u example_profile)"
    by (simp add: has_undefined_updateData or_else_def example_profile_def data_get_def)
  have status: "fst (fst (sync example_env ?u example_db)) = 200"
    using sync_existing [of example_db ?u example_profile example_env] old defined
    by simp
  have db': "snd (sync example_env ?u example_db) =
       example_db(''42'' \<mapsto>
         assign (map (\<lambda>(k, w). (k, resolve (serverTime example_env) w))
                   (updateData ?u example_profile)) example_profile)"
    using sync_existing [of example_db ?u example_profile example_env] old defined
    by (simp add: show_num_42)
  have name: "example_profile ''username'' = Some (Val (JStr ''bob''))"
    by (simp add: example_profile_def)
  have stored: "stored_field (snd (sync example_env ?u example_db)) ''42'' ''username''
                  = Some (Val (JStr ''bob''))"
    by (simp add: db' stored_field_def updated_fields or_else_def data_get_def name)
  have present: "js_get ?u ''username'' = JStr []"
    by simp
  from present status name stored show ?thesis
    by simp
qed

text \<open>
  C5 (amended).  For every identity claim whose user has no stored profile, sync answers
  200 and stores, under the key \<^verbatim>\<open>String(claim.id)\<close>, a profile with \<^verbatim>\<open>tokens = 0\<close>,
  \<^verbatim>\<open>referralsMade = 0\<close>, \<^verbatim>\<open>referredBy = null\<close>, \<^verbatim>\<open>connectedWallet = null\<close>, the
  8-character code that \<^verbatim>\<open>nanoid(8)\<close> generates, \<^verbatim>\<open>createdAt\<close> and \<^verbatim>\<open>lastLogin\<close> equal to
  the time of the server, \<^verbatim>\<open>firstName\<close> equal to \<^verbatim>\<open>User\<close> and \<^verbatim>\<open>languageCode\<close> equal to
  \<^verbatim>\<open>en\<close> when the claim has none, and a \<^verbatim>\<open>userId\<close> field equal to \<^verbatim>\<open>claim.id\<close>
  itself, the number.  The profiles of other users are not touched.
\<close>

theorem C5_new_profile:
  assumes "identity_claim telegramUser"
    and "db (js_String (js_get telegramUser ''id'')) = None"
  shows "fst (fst (sync env telegramUser db)) = 200
     \<and> map (stored_field (snd (sync env telegramUser db)) (js_String (js_get telegramUser ''id'')))
          [''tokens'', ''referralsMade'', ''referredBy'', ''connectedWallet'', ''referralCode'',
           ''createdAt'', ''lastLogin'', ''userId'']
         = [Some (Val (JNum 0 0)), Some (Val (JNum 0 0)), Some (Val JNull), Some (Val JNull),
            Some (Val (JStr (nanoid (random env) 8))), Some (Timestamp (serverTime env)),
            Some (Timestamp (serverTime env)), Some (Val (js_get telegramUser ''id''))]
     \<and> length (nanoid (random env) 8) = 8
     \<and> stored_field (snd (sync env telegramUser db)) (js_String (js_get telegramUser ''id''))
          ''firstName''
         = Some (if truthy (js_get telegramUser ''first_name'')
                 then Val (js_get telegramUser ''first_name'') else Val (JStr ''User''))
     \<and> stored_field (snd (sync env telegramUser db)) (js_String (js_get telegramUser ''id''))
          ''languageCode''
         = Some (if truthy (js_get telegramUser ''language_code'')
                 then Val (js_get telegramUser ''language_code'') else Val (JStr ''en''))
     \<and> (js_get telegramUser ''first_name'' = JUndefined \<longrightarrow>
          stored_field (snd (sync env telegramUser db)) (js_String (js_get telegramUser ''id''))
            ''firstName'' = Some (Val (JStr ''User'')))
     \<and> (js_get telegramUser ''language_code'' = JUndefined \<longrightarrow>
          stored_field (snd (sync env telegramUser db)) (js_String (js_get telegramUser ''id''))
            ''languageCode'' = Some (Val (JStr ''en'')))
     \<and> (\<forall>uid. uid \<noteq> js_String (js_get telegramUser ''id'') \<longrightarrow>
          snd (sync env telegramUser db) uid = db uid)"
proof -
  from assms(1) have id: "js_get telegramUser ''id'' \<noteq> JUndefined"
    by (auto simp: identity_claim_def split: jsval.splits)
  then have ok: "\<not> has_undefined (newUserProfile env telegramUser)"
    by (simp add: has_undefined_newUserProfile)
  have run: "sync env telegramUser db =
      ((200, MessageUser ''User validated and profile retrieved/created.''
            (assign (newUserProfile env telegramUser) Map.empty)),
       db(js_String (js_get telegramUser ''id'') \<mapsto>
            assign (map (\<lambda>(k, w). (k, resolve (serverTime env) w))
                      (newUserProfile env telegramUser)) Map.empty))"
    using ok sync_new [of db telegramUser env] assms(2) by simp
  show ?thesis
    by (simp add: run stored_field_def newUserProfile_def or_else_def length_nanoid)
qed

text \<open>
  A first sign-in of user 42.
\<close>

theorem C5_witness:
  "identity_claim (JObj [(''id'', JNum 42 0), (''username'', JStr ''ann'')])
   \<and> fst (fst (sync example_env (JObj [(''id'', JNum 42 0), (''username'', JStr ''ann'')])
                  Map.empty)) = 200
   \<and> map (stored_field
           (snd (sync example_env (JObj [(''id'', JNum 42 0), (''username'', JStr ''ann'')])
                   Map.empty)) ''42'')
        [''tokens'', ''referralsMade'', ''referredBy'', ''connectedWallet'', ''referralCode'',
         ''createdAt'', ''lastLogin'', ''userId'', ''username'', ''firstName'', ''languageCode'']
       = [Some (Val (JNum 0 0)), Some (Val (JNum 0 0)), Some (Val JNull), Some (Val JNull),
          Some (Val (JStr ''dL3jAcD-'')), Some (Timestamp 1800000000),
          Some (Timestamp 1800000000), Some (Val (JNum 42 0)), Some (Val (JStr ''ann'')),
          Some (Val (JStr ''User'')), Some (Val (JStr ''en''))]"
proof -
  let ?u = "JObj [(''id'', JNum 42 0), (''username'', JStr ''ann'')]"
  have claim: "identity_claim ?u"
    by (simp add: identity_claim_def optional_string_def)
  have new: "Map.empty (js_String (js_get ?u ''id'')) = None"
    by simp
  have code: "nanoid (random example_env) 8 = ''dL3jAcD-''"
    by code_simp
  have time: "serverTime example_env = 1800000000"
    by (simp add: example_env_def)
  have name: "stored_field (snd (sync example_env ?u Map.empty)) ''42'' ''username''
                = Some (Val (JStr ''ann''))"
    using sync_new [of Map.empty ?u example_env]
    by (simp add: has_undefined_newUserProfile show_num_42)
       (simp add: newUserProfile_def or_else_def stored_field_def)
  show ?thesis
    using C5_new_profile [of ?u Map.empty example_env] claim name
    by (simp add: show_num_42 code time)
qed

text \<open>
  C5 as stated fails on the \<^verbatim>\<open>userId\<close> field: the document is stored under the string
  \<^verbatim>\<open>"42"\<close> and its \<^verbatim>\<open>userId\<close> is the number 42.
\<close>

theorem C5_counterexample:
  "identity_claim (JObj [(''id'', JNum 42 0)])
   \<and> js_String (js_get (JObj [(''id'', JNum 42 0)]) ''id'') = ''42''
   \<and> stored_field (snd (sync example_env (JObj [(''id'', JNum 42 0)]) Map.empty)) ''42'' ''userId''
       = Some (Val (JNum 42 0))
   \<and> stored_field (snd (sync example_env (JObj [(''id'', JNum 42 0)]) Map.empty)) ''42'' ''userId''
       \<noteq> Some (Val (JStr ''42''))"
proof -
  let ?u = "JObj [(''id'', JNum 42 0)]"
  show ?thesis
    using sync_new [of Map.empty ?u example_env]
    by (simp add: has_undefined_newUserProfile show_num_42 identity_claim_def
          optional_string_def)
       (simp add: newUserProfile_def stored_field_def)
qed




text \<open>
  C7.  The verdict does not depend on the time of the call: two runs on the same payload
  and secret at any two values of \<^verbatim>\<open>Date.now()\<close> return the same verdict.  In particular
  an \<^verbatim>\<open>auth_date\<close> older than 24 hours changes the console output only.
\<close>

theorem C7_deterministic:
  "fst (isValidTelegramData now1 initData botToken)
     = fst (isValidTelegramData now2 initData botToken)"
proof (cases "initData = [] \<or> botToken = []")
  case True
  then show ?thesis
    by (auto simp: isValidTelegramData_def isValidTelegramData_with_def)
next
  case False
  then show ?thesis
    by (simp add: verdict_cases)
qed

text \<open>
  The signed scenario, read more than three years after its \<^verbatim>\<open>auth_date\<close>: the warning
  is written and the verdict is the one of a fresh read, valid.
\<close>

theorem C7_witness:
  "fst (isValidTelegramData 1800000000000
          (signed_initData ''S3cr3t''
             ''auth_date=1700000000&user=%7B%22id%22%3A42%2C%22first_name%22%3A%22Ann%22%7D'')
          ''S3cr3t'')
     = fst (isValidTelegramData 1700000000000
          (signed_initData ''S3cr3t''
             ''auth_date=1700000000&user=%7B%22id%22%3A42%2C%22first_name%22%3A%22Ann%22%7D'')
          ''S3cr3t'')
   \<and> valid (fst (isValidTelegramData 1800000000000
          (signed_initData ''S3cr3t''
             ''auth_date=1700000000&user=%7B%22id%22%3A42%2C%22first_name%22%3A%22Ann%22%7D'')
          ''S3cr3t''))
   \<and> auth_date_check 1800000000000
         (URLSearchParams
            ''auth_date=1700000000&user=%7B%22id%22%3A42%2C%22first_name%22%3A%22Ann%22%7D'')
       = [ConsoleWarn ''Validation Warning: initData is older than 24 hours.'']"
proof -
  let ?p = "signed_initData ''S3cr3t''
             ''auth_date=1700000000&user=%7B%22id%22%3A42%2C%22first_name%22%3A%22Ann%22%7D''"
  have fresh: "valid (fst (isValidTelegramData 1700000000000 ?p ''S3cr3t''))"
    by (simp add: signed_verdict params_scenario json_scenario scenario_nonempty
          del: percent_decode.simps)
  have stale: "auth_date_check 1800000000000
         (URLSearchParams
            ''auth_date=1700000000&user=%7B%22id%22%3A42%2C%22first_name%22%3A%22Ann%22%7D'')
       = [ConsoleWarn ''Validation Warning: initData is older than 24 hours.'']"
    by code_simp
  show ?thesis
    using C7_deterministic [of 1800000000000 ?p "''S3cr3t''" 1700000000000] fresh stale
    by simp
qed



text \<open>
  C9 (amended).  Two payloads, both empty or both not, whose pairs are a permutation of
  each other in which the pairs of every key keep their relative order (as they do when no
  key is repeated) get the same verdict.
\<close>

theorem C9_order_within_keys:
  assumes "(initData1 = []) = (initData2 = [])"
    and "mset (URLSearchParams initData2) = mset (URLSearchParams initData1)"
    and "\<forall>k. filter (\<lambda>p. fst p = k) (URLSearchParams initData2)
                = filter (\<lambda>p. fst p = k) (URLSearchParams initData1)"
  shows "fst (isValidTelegramData now initData1 botToken)
           = fst (isValidTelegramData now initData2 botToken)"
proof (cases "initData1 = [] \<or> botToken = []")
  case True
  with assms(1) have "initData2 = [] \<or> botToken = []"
    by blast
  with True show ?thesis
    by (simp add: isValidTelegramData_def isValidTelegramData_with_def)
next
  case False
  with assms(1) have ne: "initData1 \<noteq> []" "initData2 \<noteq> []" "botToken \<noteq> []"
    by blast+
  have k: "filter (\<lambda>p. fst p = k) (URLSearchParams initData2)
             = filter (\<lambda>p. fst p = k) (URLSearchParams initData1)" for k
    using assms(3) by blast
  have "spec_dataCheckString (URLSearchParams initData1)
          = spec_dataCheckString (URLSearchParams initData2)"
    using assms(2) k by (rule spec_dataCheckString_per_key)
  then have s: "spec_hash botToken (URLSearchParams initData2)
                  = spec_hash botToken (URLSearchParams initData1)"
    by (simp only: spec_hash_def)
  have g: "URLSearchParams_get k (URLSearchParams initData2)
             = URLSearchParams_get k (URLSearchParams initData1)" for k
    using k [of k] by (rule get_per_key)
  show ?thesis
    by (simp only: verdict_cases [OF ne(1) ne(3)] verdict_cases [OF ne(2) ne(3)] Let_def s g)
qed

text \<open>
  The three pairs of a payload in reverse order.
\<close>

theorem C9_witness:
  "fst (isValidTelegramData 0 ''auth_date=1&user=null&hash=ab'' ''S3cr3t'')
     = fst (isValidTelegramData 0 ''hash=ab&user=null&auth_date=1'' ''S3cr3t'')
   \<and> mset (URLSearchParams ''hash=ab&user=null&auth_date=1'')
       = mset (URLSearchParams ''auth_date=1&user=null&hash=ab'')
   \<and> URLSearchParams ''hash=ab&user=null&auth_date=1''
       \<noteq> URLSearchParams ''auth_date=1&user=null&hash=ab''"
proof -
  have p1: "URLSearchParams ''auth_date=1&user=null&hash=ab''
              = [(''auth_date'', ''1''), (''user'', ''null''), (''hash'', ''ab'')]"
    by code_simp
  have p2: "URLSearchParams ''hash=ab&user=null&auth_date=1''
              = [(''hash'', ''ab''), (''user'', ''null''), (''auth_date'', ''1'')]"
    by code_simp
  have m: "mset (URLSearchParams ''hash=ab&user=null&auth_date=1'')
             = mset (URLSearchParams ''auth_date=1&user=null&hash=ab'')"
    by (simp add: p1 p2)
  have k: "\<forall>k. filter (\<lambda>p. fst p = k) (URLSearchParams ''hash=ab&user=null&auth_date=1'')
                = filter (\<lambda>p. fst p = k) (URLSearchParams ''auth_date=1&user=null&hash=ab'')"
    by (auto simp: p1 p2)
  have e: "(''auth_date=1&user=null&hash=ab'' = []) = (''hash=ab&user=null&auth_date=1'' = [])"
    by simp
  show ?thesis
    using C9_order_within_keys [OF e m k, of 0 "''S3cr3t''"] m
    by (simp add: p1 p2)
qed

text \<open>
  C9 as stated fails when a key is repeated: swapping the two \<^verbatim>\<open>hash\<close> pairs of a
  payload changes the verdict from \<^verbatim>\<open>Hash missing\<close> to \<^verbatim>\<open>Hash mismatch\<close>.
\<close>

theorem C9_counterexample:
  "mset (URLSearchParams ''hash=&hash=ab'') = mset (URLSearchParams ''hash=ab&hash='')
   \<and> fst (isValidTelegramData 0 ''hash=&hash=ab'' ''S3cr3t'')
       = \<lparr>valid = False, user = JNull, error = Some ''Hash missing''\<rparr>
   \<and> fst (isValidTelegramData 0 ''hash=ab&hash='' ''S3cr3t'')
       = \<lparr>valid = False, user = JNull, error = Some ''Hash mismatch''\<rparr>"
proof -
  have p1: "URLSearchParams ''hash=&hash=ab'' = [(''hash'', []), (''hash'', ''ab'')]"
    by code_simp
  have p2: "URLSearchParams ''hash=ab&hash='' = [(''hash'', ''ab''), (''hash'', [])]"
    by code_simp
  have "length ''ab'' \<noteq> length (spec_hash ''S3cr3t'' ps)" for ps
    by (simp add: length_spec_hash)
  then have d: "''ab'' \<noteq> spec_hash ''S3cr3t'' ps" for ps
    by metis
  show ?thesis
    using d by (simp add: verdict_cases p1 p2 invalid_def)
qed

text \<open>
  C10.  With an empty secret the verifier returns \<^verbatim>\<open>{ valid: false, user: null }\<close> with no
  reason code, whatever the payload is and whatever the cryptography would do: the only
  console output is the line of the guard, so nothing of the parsing code has run.
\<close>

theorem C10_empty_secret:
  "isValidTelegramData_with createHmac now initData [] =
     (\<lparr>valid = False, user = JNull, error = None\<rparr>,
      [ConsoleError ''Validation Error: Missing initData or botToken''])"
  by (simp add: isValidTelegramData_with_def invalid_def)

end
